theory Spec2Isabelle
  imports Complex_Main "HOL-Library.List_Lexorder" "HOL-Library.Char_ord"
begin

section \<open>JavaScript values\<close>

text \<open>
  The records of \<^verbatim>\<open>db.json\<close>, the request body and the query string hold JavaScript
  values. The model keeps the primitive ones: \<^verbatim>\<open>undefined\<close> (also the value
  of a property that is absent or was deleted), \<^verbatim>\<open>null\<close>, booleans, integral numbers and
  strings. Strings are ASCII texts. Arrays and objects as field values are outside the model.
\<close>

datatype jsval = Undefined | Null | Bool bool | Num int | Str string

text \<open>The test that \<^verbatim>\<open>if (v)\<close>, \<^verbatim>\<open>!v\<close>, \<^verbatim>\<open>a && b\<close> and \<^verbatim>\<open>a || b\<close> apply to a value.\<close>

fun truthy :: "jsval \<Rightarrow> bool" where
  "truthy Undefined = False"
| "truthy Null = False"
| "truthy (Bool b) = b"
| "truthy (Num n) = (n \<noteq> 0)"
| "truthy (Str s) = (s \<noteq> [])"

text \<open>Decimal rendering of an integer, as \<^verbatim>\<open>Number.prototype.toString\<close> gives it.\<close>

definition digit_char :: "nat \<Rightarrow> char" where
  "digit_char d = (if d < 10 then ''0123456789'' ! d else CHR ''?'')"

fun dec_nat :: "nat \<Rightarrow> string" where
  "dec_nat n = (if n < 10 then [digit_char n] else dec_nat (n div 10) @ [digit_char (n mod 10)])"

declare dec_nat.simps [simp del]

definition dec_int :: "int \<Rightarrow> string" where
  "dec_int i = (if i < 0 then CHR ''-'' # dec_nat (nat (- i)) else dec_nat (nat i))"

text \<open>\<^verbatim>\<open>String(v)\<close>.\<close>

fun js_String :: "jsval \<Rightarrow> string" where
  "js_String Undefined = ''undefined''"
| "js_String Null = ''null''"
| "js_String (Bool b) = (if b then ''true'' else ''false'')"
| "js_String (Num n) = dec_int n"
| "js_String (Str s) = s"

text \<open>\<^verbatim>\<open>String.prototype.trim\<close> on ASCII text: tab, line feed, vertical tab, form feed,
  carriage return and space are stripped from both ends.\<close>

definition is_space :: "char \<Rightarrow> bool" where
  "is_space c = (c \<in> {CHR 0x09, CHR 0x0A, CHR 0x0B, CHR 0x0C, CHR 0x0D, CHR '' ''})"

definition trim :: "string \<Rightarrow> string" where
  "trim s = rev (dropWhile is_space (rev (dropWhile is_space s)))"

text \<open>\<^verbatim>\<open>s.padStart(n, c)\<close> for a one-character pad.\<close>

definition padStart :: "nat \<Rightarrow> char \<Rightarrow> string \<Rightarrow> string" where
  "padStart n c s = replicate (n - length s) c @ s"

text \<open>\<^verbatim>\<open>encodeURIComponent\<close> on ASCII text: letters, digits and \<^verbatim>\<open>-_.!~*'()\<close> stay,
  every other character becomes a percent sign and two upper-case hexadecimal digits.\<close>

definition is_alnum :: "char \<Rightarrow> bool" where
  "is_alnum c = (c \<in> set ''ABCDEFGHIJKLMNOPQRSTUVWXYZabcdefghijklmnopqrstuvwxyz0123456789'')"

definition hex_digit :: "nat \<Rightarrow> char" where
  "hex_digit d = (if d < 16 then ''0123456789ABCDEF'' ! d else CHR ''?'')"

definition pct_encode :: "char \<Rightarrow> string" where
  "pct_encode c =
     (if is_alnum c \<or> c \<in> set ''-_.!~*()'' \<or> c = CHR 0x27 then [c]
      else [CHR ''%'', hex_digit (of_char c div 16), hex_digit (of_char c mod 16)])"

definition encodeURIComponent :: "string \<Rightarrow> string" where
  "encodeURIComponent s = concat (map pct_encode s)"

text \<open>A thrown \<^verbatim>\<open>Error\<close>: its name, message and stack trace. A computation that may throw
  returns \<open>Inl\<close> of the error or \<open>Inr\<close> of its value.\<close>

record js_error =
  err_name :: string
  err_message :: string
  err_stack :: string

type_synonym 'a result = "js_error + 'a"

text \<open>\<^verbatim>\<open>String(err)\<close>, that is \<^verbatim>\<open>Error.prototype.toString\<close>.\<close>

definition err_toString :: "js_error \<Rightarrow> string" where
  "err_toString e =
     (if err_name e = [] then err_message e
      else if err_message e = [] then err_name e
      else err_name e @ '': '' @ err_message e)"

section \<open>Items and the bcrypt library\<close>

text \<open>
  A stored item as \<^verbatim>\<open>/api/host\<close> builds it, with the legacy \<^verbatim>\<open>passcode\<close> property of
  older records. The properties \<^verbatim>\<open>id\<close>, \<^verbatim>\<open>type\<close> and \<^verbatim>\<open>text\<close> are the fields
  \<open>item_id\<close>, \<open>item_type\<close> and \<open>item_text\<close>.
\<close>

record item =
  item_id :: jsval
  title :: jsval
  item_type :: jsval
  filename :: jsval
  mimeType :: jsval
  item_text :: jsval
  keyphrase :: jsval
  passcodeHash :: jsval
  passcode :: jsval
  createdAt :: jsval

text \<open>
  The bcrypt package is an external library and a parameter of the model.
  \<^verbatim>\<open>bcrypt.hash(data, rounds)\<close> draws a salt from a source of randomness \<open>'w\<close>, which it
  returns advanced, and resolves to a hash string or rejects. \<^verbatim>\<open>bcrypt.compare(data, hash)\<close>
  receives whatever value the record holds as hash; it resolves to a boolean or rejects.
  The cost factor \<^verbatim>\<open>SALT_ROUNDS\<close>, read from the environment with default 10, is an
  integer parameter \<open>rounds\<close> of every function that hashes.
\<close>

record 'w bcrypt =
  bcrypt_hash :: "'w \<Rightarrow> string \<Rightarrow> int \<Rightarrow> string result \<times> 'w"
  bcrypt_compare :: "string \<Rightarrow> jsval \<Rightarrow> bool result"

text \<open>The contract of the library that the round trip relies on: a hash it produced is a
  non-empty string that \<^verbatim>\<open>compare\<close> accepts for the same data.\<close>

definition bcrypt_sound :: "'w bcrypt \<Rightarrow> bool" where
  "bcrypt_sound B =
     (\<forall>w p c h w'. bcrypt_hash B w p c = (Inr h, w') \<longrightarrow>
        h \<noteq> [] \<and> bcrypt_compare B p (Str h) = Inr True)"

text \<open>\<^verbatim>\<open>verifyPasscode(item, passcodePlain)\<close>; \<open>None\<close> is a null or undefined item.\<close>

definition verifyPasscode :: "'w bcrypt \<Rightarrow> item option \<Rightarrow> jsval \<Rightarrow> bool result" where
  "verifyPasscode B item passcodePlain =
     (case item of
        None \<Rightarrow> Inr False
      | Some it \<Rightarrow>
          if truthy (passcodeHash it) then
            (case bcrypt_compare B (js_String passcodePlain) (passcodeHash it) of
               Inr b \<Rightarrow> Inr b
             | Inl _ \<Rightarrow> Inr False)
          else if truthy (passcode it) then
            Inr (js_String passcodePlain = js_String (passcode it))
          else Inr False)"

section \<open>The JSON-file store and the legacy migration\<close>

text \<open>
  What the process can observe of its surroundings: the parsed content of \<^verbatim>\<open>DATA_FILE\<close>
  (\<open>None\<close> when the file cannot be read or parsed), the error that \<^verbatim>\<open>fs.writeFileSync\<close>
  throws when the disk refuses a write, whether that failure strikes after the file was opened,
  and the randomness bcrypt draws its salts from. \<^verbatim>\<open>fs.writeFileSync\<close> opens the file
  truncating it and then writes the bytes: a failure to open (a missing permission) leaves
  the file as it was, a failure while writing (a full disk) leaves an empty or cut-off file,
  which no longer parses.
  A file that parses to something without an array \<^verbatim>\<open>items\<close> of objects is outside the
  model, and so are the lines written to the console and the interleaving of requests.
\<close>

record 'w world =
  data_file :: "item list option"
  write_error :: "js_error option"
  write_truncates :: bool
  rng :: 'w

definition readDB :: "'w world \<Rightarrow> item list" where
  "readDB W = (case data_file W of Some its \<Rightarrow> its | None \<Rightarrow> [])"

definition writeDB :: "'w world \<Rightarrow> item list \<Rightarrow> unit result \<times> 'w world" where
  "writeDB W db =
     (case write_error W of
        Some e \<Rightarrow> (Inl e, if write_truncates W then W\<lparr>data_file := None\<rparr> else W)
      | None \<Rightarrow> (Inr (), W\<lparr>data_file := Some db\<rparr>))"

text \<open>The body of the loop in \<^verbatim>\<open>migratePlainPasscodes\<close>, on one item. The state of the loop
  is the flag \<^verbatim>\<open>changed\<close> and the randomness; \<open>rounds\<close> is \<^verbatim>\<open>SALT_ROUNDS\<close>.\<close>

fun migrate_item :: "'w bcrypt \<Rightarrow> int \<Rightarrow> item \<Rightarrow> bool \<times> 'w \<Rightarrow> item \<times> (bool \<times> 'w)" where
  "migrate_item B rounds it (changed, w) =
     (if truthy (passcode it) \<and> \<not> truthy (passcodeHash it) then
        (case bcrypt_hash B w (js_String (passcode it)) rounds of
           (Inr h, w') \<Rightarrow> (it\<lparr>passcodeHash := Str h, passcode := Undefined\<rparr>, (True, w'))
         | (Inl err, w') \<Rightarrow> (it, (changed, w')))
      else (it, (changed, w)))"

fun migrate_items :: "'w bcrypt \<Rightarrow> int \<Rightarrow> item list \<Rightarrow> bool \<times> 'w \<Rightarrow> item list \<times> (bool \<times> 'w)" where
  "migrate_items B rounds [] s = ([], s)"
| "migrate_items B rounds (it # its) s =
     (case migrate_item B rounds it s of
        (it', s') \<Rightarrow>
          (case migrate_items B rounds its s' of
             (its', s'') \<Rightarrow> (it' # its', s'')))"

definition migratePlainPasscodes :: "'w bcrypt \<Rightarrow> int \<Rightarrow> 'w world \<Rightarrow> unit result \<times> 'w world" where
  "migratePlainPasscodes B rounds W =
     (case migrate_items B rounds (readDB W) (False, rng W) of
        (db, (changed, w')) \<Rightarrow>
          if changed then writeDB (W\<lparr>rng := w'\<rparr>) db else (Inr (), W\<lparr>rng := w'\<rparr>))"

text \<open>
  The loop read item by item. For an item met with randomness \<open>w\<close>: what the body leaves in
  its place, whether the body sets \<^verbatim>\<open>changed\<close>, and the randomness it passes on.
  \<open>rng_before\<close> is the randomness the loop has reached when it comes to the item at
  index \<open>i\<close>.
\<close>

definition migrated :: "'w bcrypt \<Rightarrow> int \<Rightarrow> 'w \<Rightarrow> item \<Rightarrow> item" where
  "migrated B rounds w it =
     (if truthy (passcode it) \<and> \<not> truthy (passcodeHash it) then
        (case fst (bcrypt_hash B w (js_String (passcode it)) rounds) of
           Inr h \<Rightarrow> it\<lparr>passcodeHash := Str h, passcode := Undefined\<rparr>
         | Inl err \<Rightarrow> it)
      else it)"

definition hashed :: "'w bcrypt \<Rightarrow> int \<Rightarrow> 'w \<Rightarrow> item \<Rightarrow> bool" where
  "hashed B rounds w it =
     (truthy (passcode it) \<and> \<not> truthy (passcodeHash it) \<and>
      (case fst (bcrypt_hash B w (js_String (passcode it)) rounds) of
         Inr h \<Rightarrow> True
       | Inl err \<Rightarrow> False))"

definition next_rng :: "'w bcrypt \<Rightarrow> int \<Rightarrow> 'w \<Rightarrow> item \<Rightarrow> 'w" where
  "next_rng B rounds w it =
     (if truthy (passcode it) \<and> \<not> truthy (passcodeHash it)
      then snd (bcrypt_hash B w (js_String (passcode it)) rounds)
      else w)"

definition rng_before :: "'w bcrypt \<Rightarrow> int \<Rightarrow> item list \<Rightarrow> 'w \<Rightarrow> nat \<Rightarrow> 'w" where
  "rng_before B rounds its w i = snd (snd (migrate_items B rounds (take i its) (False, w)))"

text \<open>\<^verbatim>\<open>getAuthorizedItems\<close> of the JSON-file server: the candidates are filtered by
  \<^verbatim>\<open>===\<close> on the keyphrase, the loop pushes every candidate that verifies.\<close>

fun authorize_loop :: "'w bcrypt \<Rightarrow> item list \<Rightarrow> jsval \<Rightarrow> item list \<Rightarrow> item list result" where
  "authorize_loop B [] pc out = Inr out"
| "authorize_loop B (it # candidates) pc out =
     (case verifyPasscode B (Some it) pc of
        Inl err \<Rightarrow> Inl err
      | Inr ok \<Rightarrow> authorize_loop B candidates pc (if ok then out @ [it] else out))"

definition getAuthorizedItems :: "'w bcrypt \<Rightarrow> 'w world \<Rightarrow> jsval \<Rightarrow> jsval \<Rightarrow> item list result" where
  "getAuthorizedItems B W kp pc =
     authorize_loop B (filter (\<lambda>it. keyphrase it = kp) (readDB W)) pc []"

section \<open>The Postgres store\<close>

text \<open>
  A row of the table \<^verbatim>\<open>items\<close>. A text column holds a string or \<open>Null\<close>; the timestamp
  column is represented by the ISO text of its instant, so that \<^verbatim>\<open>new Date(x).toISOString()\<close>
  is the identity on it and \<^verbatim>\<open>ORDER BY createdat\<close> compares these texts.
\<close>

record row =
  row_id :: jsval
  row_title :: jsval
  row_type :: jsval
  row_filename :: jsval
  row_mimetype :: jsval
  row_text :: jsval
  row_keyphrase :: jsval
  row_passcodehash :: jsval
  row_createdat :: jsval

text \<open>The table, the error with which \<^verbatim>\<open>pool.query\<close> rejects when the database fails
  (an unreachable server, a violated constraint), the error with which \<^verbatim>\<open>s3.send\<close> rejects
  when the upload fails, and the randomness. The bytes kept in the bucket are not modelled.\<close>

record 'w pg_world =
  pg_table :: "row list"
  query_error :: "js_error option"
  s3_error :: "js_error option"
  pg_rng :: 'w

definition rowToItem :: "row \<Rightarrow> item" where
  "rowToItem r =
     \<lparr>item_id = row_id r, title = row_title r, item_type = row_type r,
      filename = row_filename r, mimeType = row_mimetype r, item_text = row_text r,
      keyphrase = row_keyphrase r, passcodeHash = row_passcodehash r, passcode = Undefined,
      createdAt = (if truthy (row_createdat r) then row_createdat r else Null)\<rparr>"

text \<open>\<^verbatim>\<open>ORDER BY createdat DESC\<close>: rows without a timestamp first, then the latest first.\<close>

definition order_by_createdat_desc :: "row list \<Rightarrow> row list" where
  "order_by_createdat_desc rs =
     filter (\<lambda>r. row_createdat r = Null) rs @
     rev (sort_key (\<lambda>r. js_String (row_createdat r)) (filter (\<lambda>r. row_createdat r \<noteq> Null) rs))"

text \<open>\<^verbatim>\<open>SELECT * FROM items WHERE keyphrase = $1 ORDER BY createdat DESC\<close>, for a string \<open>$1\<close>.\<close>

definition findItemsByKeyphrase :: "'w pg_world \<Rightarrow> string \<Rightarrow> item list result" where
  "findItemsByKeyphrase P kp =
     (case query_error P of
        Some e \<Rightarrow> Inl e
      | None \<Rightarrow>
          Inr (map rowToItem
                 (order_by_createdat_desc (filter (\<lambda>r. row_keyphrase r = Str kp) (pg_table P)))))"

definition or_null :: "jsval \<Rightarrow> jsval" where
  "or_null v = (if truthy v then v else Null)"

definition sql_param :: "jsval \<Rightarrow> jsval" where
  "sql_param v = (if v = Undefined then Null else v)"

definition insertItemToDb :: "'w pg_world \<Rightarrow> item \<Rightarrow> unit result \<times> 'w pg_world" where
  "insertItemToDb P it =
     (let params =
        \<lparr>row_id = sql_param (item_id it), row_title = sql_param (title it),
         row_type = sql_param (item_type it), row_filename = or_null (filename it),
         row_mimetype = or_null (mimeType it), row_text = or_null (item_text it),
         row_keyphrase = sql_param (keyphrase it), row_passcodehash = sql_param (passcodeHash it),
         row_createdat = sql_param (createdAt it)\<rparr>
      in case query_error P of
           Some e \<Rightarrow> (Inl e, P)
         | None \<Rightarrow> (Inr (), P\<lparr>pg_table := pg_table P @ [params]\<rparr>))"

definition getAuthorizedItems_pg :: "'w bcrypt \<Rightarrow> 'w pg_world \<Rightarrow> string \<Rightarrow> jsval \<Rightarrow> item list result" where
  "getAuthorizedItems_pg B P kp pc =
     (case findItemsByKeyphrase P kp of
        Inl e \<Rightarrow> Inl e
      | Inr candidates \<Rightarrow> authorize_loop B candidates pc [])"

section \<open>Creating an item: \<^verbatim>\<open>POST /api/host\<close>\<close>

definition words :: "string list" where
  "words = [''apple'', ''river'', ''sun'', ''moon'', ''blue'', ''green'', ''cloud'', ''stone'',
            ''forest'', ''star'', ''sky'', ''leaf'', ''fox'', ''lake'', ''wind'']"

text \<open>\<^verbatim>\<open>pick\<close> for a value \<open>r\<close> of \<^verbatim>\<open>Math.random()\<close>; an index outside the array reads
  \<^verbatim>\<open>undefined\<close>, which the template prints as such. The product is taken in the reals.\<close>

definition pick :: "real \<Rightarrow> string" where
  "pick r =
     (let i = \<lfloor>r * real (length words)\<rfloor>
      in if 0 \<le> i \<and> i < int (length words) then words ! nat i else ''undefined'')"

definition generateKeyphrase :: "real \<Rightarrow> real \<Rightarrow> real \<Rightarrow> string" where
  "generateKeyphrase r1 r2 r3 = pick r1 @ ''-'' @ pick r2 @ ''-'' @ pick r3"

text \<open>The file that multer attached to the request, and the parts of the request the
  handler reads.\<close>

record upload =
  originalname :: string
  upload_filename :: string
  mimetype :: string

record request =
  req_keyphrase :: jsval
  req_title :: jsval
  req_text :: jsval
  req_file :: "upload option"
  req_protocol :: string
  req_host :: jsval

text \<open>
  What the handler draws from its environment in one run: the result of \<^verbatim>\<open>uuidv4()\<close>, three
  values of \<^verbatim>\<open>Math.random()\<close>, the result of \<^verbatim>\<open>crypto.randomInt(0, 10000)\<close>, the text of
  \<^verbatim>\<open>new Date().toISOString()\<close>, and the \<^verbatim>\<open>TypeError\<close> the engine raises when \<^verbatim>\<open>trim\<close> is
  called on a value that has no such method.
\<close>

record draws =
  uuid :: string
  random1 :: real
  random2 :: real
  random3 :: real
  randomInt :: int
  now_iso :: string
  type_error :: js_error

record response =
  status :: nat
  json :: "(string \<times> jsval) list"

text \<open>\<^verbatim>\<open>req.body.keyphrase && req.body.keyphrase.trim()\<close>.\<close>

definition providedKey :: "draws \<Rightarrow> jsval \<Rightarrow> jsval result" where
  "providedKey E k =
     (if \<not> truthy k then Inr k
      else case k of Str s \<Rightarrow> Inr (Str (trim s)) | _ \<Rightarrow> Inl (type_error E))"

text \<open>\<^verbatim>\<open>providedKey || generateKeyphrase()\<close>.\<close>

definition choose_keyphrase :: "draws \<Rightarrow> jsval \<Rightarrow> jsval" where
  "choose_keyphrase E pk =
     (if truthy pk then pk else Str (generateKeyphrase (random1 E) (random2 E) (random3 E)))"

text \<open>\<^verbatim>\<open>crypto.randomInt(0, 10000).toString().padStart(4, '0')\<close>.\<close>

definition new_passcode :: "draws \<Rightarrow> string" where
  "new_passcode E = padStart 4 (CHR ''0'') (dec_int (randomInt E))"

definition shareUrl :: "request \<Rightarrow> jsval \<Rightarrow> string \<Rightarrow> string" where
  "shareUrl req kp pc =
     req_protocol req @ ''://'' @ js_String (req_host req) @ ''/view?keyphrase='' @
     encodeURIComponent (js_String kp) @ ''&passcode='' @ encodeURIComponent pc"

definition host_success :: "request \<Rightarrow> item \<Rightarrow> string \<Rightarrow> response" where
  "host_success req it pc =
     \<lparr>status = 200,
      json = [(''success'', Bool True), (''id'', item_id it), (''keyphrase'', keyphrase it),
              (''passcode'', Str pc), (''shareUrl'', Str (shareUrl req (keyphrase it) pc))]\<rparr>"

definition new_item :: "draws \<Rightarrow> request \<Rightarrow> jsval \<Rightarrow> jsval \<Rightarrow> jsval \<Rightarrow> string \<Rightarrow> item" where
  "new_item E req fname mime kp h =
     \<lparr>item_id = Str (uuid E),
      title = (if truthy (req_title req) then req_title req
               else Str (case req_file req of Some f \<Rightarrow> originalname f | None \<Rightarrow> ''untitled'')),
      item_type = Str (case req_file req of Some f \<Rightarrow> ''file'' | None \<Rightarrow> ''text''),
      filename = fname,
      mimeType = mime,
      item_text = (if truthy (req_text req) then req_text req else Undefined),
      keyphrase = kp,
      passcodeHash = Str h,
      passcode = Undefined,
      createdAt = Str (now_iso E)\<rparr>"

subsection \<open>The JSON-file server\<close>

definition failed_to_host :: response where
  "failed_to_host = \<lparr>status = 500, json = [(''error'', Str ''failed to host item'')]\<rparr>"

text \<open>\<^verbatim>\<open>req.file ? req.file.filename : undefined\<close> and the same for the MIME type.\<close>

definition disk_filename :: "request \<Rightarrow> jsval" where
  "disk_filename req = (case req_file req of Some f \<Rightarrow> Str (upload_filename f) | None \<Rightarrow> Undefined)"

definition disk_mimeType :: "request \<Rightarrow> jsval" where
  "disk_mimeType req = (case req_file req of Some f \<Rightarrow> Str (mimetype f) | None \<Rightarrow> Undefined)"

definition host :: "'w bcrypt \<Rightarrow> int \<Rightarrow> draws \<Rightarrow> request \<Rightarrow> 'w world \<Rightarrow> response \<times> 'w world" where
  "host B rounds E req W =
     (let db = readDB W in
      (case providedKey E (req_keyphrase req) of
         Inl err \<Rightarrow> (failed_to_host, W)
       | Inr pk \<Rightarrow>
           (let kp = choose_keyphrase E pk;
                pc = new_passcode E
            in (case bcrypt_hash B (rng W) pc rounds of
                  (Inl err, w') \<Rightarrow> (failed_to_host, W\<lparr>rng := w'\<rparr>)
                | (Inr h, w') \<Rightarrow>
                    (let it = new_item E req (disk_filename req) (disk_mimeType req) kp h
                     in (case writeDB (W\<lparr>rng := w'\<rparr>) (db @ [it]) of
                           (Inl err, W') \<Rightarrow> (failed_to_host, W')
                         | (Inr u, W') \<Rightarrow> (host_success req it pc, W')))))))"

subsection \<open>The Postgres and S3 server\<close>

record config =
  S3_BUCKET :: jsval
  NODE_ENV :: jsval

text \<open>The body of an error response: outside production it carries the message and the
  stack of the error.\<close>

definition error_body :: "config \<Rightarrow> string \<Rightarrow> js_error \<Rightarrow> (string \<times> jsval) list" where
  "error_body cfg msg e =
     (if NODE_ENV cfg \<noteq> Str ''production'' then
        [(''error'', Str msg),
         (''detail'', Str (if err_message e \<noteq> [] then err_message e else err_toString e)),
         (''stack'', if err_stack e \<noteq> [] then Str (err_stack e) else Null)]
      else [(''error'', Str msg)])"

definition unhandled_error :: "config \<Rightarrow> js_error \<Rightarrow> response" where
  "unhandled_error cfg e =
     (if NODE_ENV cfg \<noteq> Str ''production'' then
        \<lparr>status = 500,
         json = [(''error'', Str ''failed to host item''), (''detail'', Str (err_message e)),
                 (''stack'', Str (err_stack e))]\<rparr>
      else \<lparr>status = 500, json = [(''error'', Str ''failed to host item'')]\<rparr>)"

definition safe_name :: "string \<Rightarrow> string" where
  "safe_name s = map (\<lambda>c. if is_alnum c \<or> c \<in> set ''.-_'' then c else CHR ''_'') s"

text \<open>The upload of the attached file: \<open>Inl\<close> is the response of an early return, \<open>Inr\<close> the
  \<^verbatim>\<open>filename\<close> and \<^verbatim>\<open>mimeType\<close> of the item.\<close>

definition upload_file :: "config \<Rightarrow> draws \<Rightarrow> request \<Rightarrow> 'w pg_world \<Rightarrow> response + jsval \<times> jsval" where
  "upload_file cfg E req P =
     (case req_file req of
        None \<Rightarrow> Inr (Undefined, Undefined)
      | Some f \<Rightarrow>
          (if \<not> truthy (S3_BUCKET cfg) then
             Inl \<lparr>status = 500, json = [(''error'', Str ''S3_BUCKET not configured'')]\<rparr>
           else
             (let key = uuid E @ ''-'' @ safe_name (originalname f)
              in (case s3_error P of
                    Some err \<Rightarrow>
                      Inl \<lparr>status = 500, json = error_body cfg ''failed to upload file to S3'' err\<rparr>
                  | None \<Rightarrow> Inr (Str key, Str (mimetype f))))))"

definition host_pg ::
  "'w bcrypt \<Rightarrow> int \<Rightarrow> config \<Rightarrow> draws \<Rightarrow> request \<Rightarrow> 'w pg_world \<Rightarrow> response \<times> 'w pg_world" where
  "host_pg B rounds cfg E req P =
     (case providedKey E (req_keyphrase req) of
        Inl err \<Rightarrow> (unhandled_error cfg err, P)
      | Inr pk \<Rightarrow>
          (let kp = choose_keyphrase E pk;
               pc = new_passcode E
           in (case bcrypt_hash B (pg_rng P) pc rounds of
                 (Inl err, w') \<Rightarrow> (unhandled_error cfg err, P\<lparr>pg_rng := w'\<rparr>)
               | (Inr h, w') \<Rightarrow>
                   (case upload_file cfg E req (P\<lparr>pg_rng := w'\<rparr>) of
                      Inl resp \<Rightarrow> (resp, P\<lparr>pg_rng := w'\<rparr>)
                    | Inr (fname, mime) \<Rightarrow>
                        (let it = new_item E req fname mime kp h
                         in (case insertItemToDb (P\<lparr>pg_rng := w'\<rparr>) it of
                               (Inl dbErr, P') \<Rightarrow>
                                 (\<lparr>status = 500,
                                   json = error_body cfg ''failed to write item to DB'' dbErr\<rparr>, P')
                             | (Inr u, P') \<Rightarrow> (host_success req it pc, P')))))))"

section \<open>A scripted library and sample records\<close>

text \<open>
  A stand-in for the bcrypt package, for running the model on concrete inputs. Its
  randomness is a script: each entry says whether the next draw of entropy succeeds. The hash
  of a text is the text behind a fixed prefix; \<^verbatim>\<open>compare\<close> resolves to false on every other
  string and rejects a hash that is not a string, as the package does.
\<close>

definition entropy_error :: js_error where
  "entropy_error =
     \<lparr>err_name = ''Error'', err_message = ''no entropy'', err_stack = ''Error: no entropy''\<rparr>"

definition not_strings :: js_error where
  "not_strings =
     \<lparr>err_name = ''Error'', err_message = ''data and hash must be strings'',
      err_stack = ''Error: data and hash must be strings''\<rparr>"

definition stub_bcrypt :: "bool list bcrypt" where
  "stub_bcrypt =
     \<lparr>bcrypt_hash = (\<lambda>w p c.
        case w of
          [] \<Rightarrow> (Inl entropy_error, [])
        | ok # w' \<Rightarrow> (if ok then Inr (''$2b$'' @ p) else Inl entropy_error, w')),
      bcrypt_compare = (\<lambda>p h.
        case h of Str s \<Rightarrow> Inr (s = ''$2b$'' @ p) | _ \<Rightarrow> Inl not_strings)\<rparr>"

definition blank_item :: item where
  "blank_item =
     \<lparr>item_id = Undefined, title = Undefined, item_type = Undefined, filename = Undefined,
      mimeType = Undefined, item_text = Undefined, keyphrase = Undefined,
      passcodeHash = Undefined, passcode = Undefined, createdAt = Undefined\<rparr>"

text \<open>A legacy record with the plaintext passcode 0042 and no hash.\<close>

definition legacy_item :: item where
  "legacy_item =
     blank_item\<lparr>item_id := Str ''a1'', keyphrase := Str ''apple-river-sun'',
                passcode := Str ''0042''\<rparr>"

text \<open>A record that holds a hash and a plaintext passcode at once.\<close>

definition both_item :: item where
  "both_item =
     blank_item\<lparr>item_id := Str ''b2'', keyphrase := Str ''Apple-River-Sun'',
                passcodeHash := Str ''$2b$1111'', passcode := Str ''1111''\<rparr>"

text \<open>The legacy record after a successful migration by the scripted library.\<close>

definition hashed_legacy_item :: item where
  "hashed_legacy_item = legacy_item\<lparr>passcodeHash := Str ''$2b$0042'', passcode := Undefined\<rparr>"

text \<open>A legacy record that also holds the empty string as hash.\<close>

definition empty_hash_item :: item where
  "empty_hash_item = legacy_item\<lparr>passcodeHash := Str []\<rparr>"

text \<open>A legacy record whose keyphrase differs from that of \<open>legacy_item\<close> in case only.\<close>

definition capital_item :: item where
  "capital_item = legacy_item\<lparr>item_id := Str ''a3'', keyphrase := Str ''Apple-River-Sun''\<rparr>"

definition sample_world :: "bool list \<Rightarrow> item list \<Rightarrow> bool list world" where
  "sample_world script its =
     \<lparr>data_file = Some its, write_error = None, write_truncates = True, rng = script\<rparr>"

definition sample_request :: "jsval \<Rightarrow> request" where
  "sample_request k =
     \<lparr>req_keyphrase = k, req_title = Undefined, req_text = Str ''hello'', req_file = None,
      req_protocol = ''https'', req_host = Str ''example.org''\<rparr>"

definition sample_draws :: draws where
  "sample_draws =
     \<lparr>uuid = ''c3'', random1 = 0, random2 = 1 / 2, random3 = 99 / 100, randomInt = 42,
      now_iso = ''2024-01-01T00:00:00.000Z'',
      type_error = \<lparr>err_name = ''TypeError'',
                    err_message = ''req.body.keyphrase.trim is not a function'',
                    err_stack = ''TypeError: req.body.keyphrase.trim is not a function''\<rparr>\<rparr>"

definition disk_full :: js_error where
  "disk_full =
     \<lparr>err_name = ''Error'', err_message = ''ENOSPC: no space left on device, write'',
      err_stack = ''Error: ENOSPC: no space left on device, write''\<rparr>"

definition db_down :: js_error where
  "db_down =
     \<lparr>err_name = ''Error'', err_message = ''connect ECONNREFUSED'',
      err_stack = ''Error: connect ECONNREFUSED''\<rparr>"

definition sample_row :: row where
  "sample_row =
     \<lparr>row_id = Str ''r1'', row_title = Str ''untitled'', row_type = Str ''text'',
      row_filename = Null, row_mimetype = Null, row_text = Str ''hello'',
      row_keyphrase = Str ''apple-river-sun'', row_passcodehash = Str ''$2b$0042'',
      row_createdat = Str ''2024-01-01T00:00:00.000Z''\<rparr>"

definition sample_pg :: "js_error option \<Rightarrow> bool list pg_world" where
  "sample_pg qe =
     \<lparr>pg_table = [sample_row, sample_row\<lparr>row_id := Str ''r2'', row_keyphrase := Str ''Apple-River-Sun''\<rparr>],
      query_error = qe, s3_error = None, pg_rng = [True]\<rparr>"

definition sample_config :: config where
  "sample_config = \<lparr>S3_BUCKET = Str ''phraseport-files'', NODE_ENV = Undefined\<rparr>"

section \<open>Auxiliary facts\<close>

subsection \<open>The scripted library and the sample records\<close>

lemma stub_hash:
  "bcrypt_hash stub_bcrypt w p c =
     (case w of
        [] \<Rightarrow> (Inl entropy_error, [])
      | ok # w' \<Rightarrow> (if ok then Inr (''$2b$'' @ p) else Inl entropy_error, w'))"
  by (simp add: stub_bcrypt_def split: list.splits)

lemma stub_compare:
  "bcrypt_compare stub_bcrypt p h =
     (case h of Str s \<Rightarrow> Inr (s = ''$2b$'' @ p) | _ \<Rightarrow> Inl not_strings)"
  by (simp add: stub_bcrypt_def split: jsval.splits)

lemma stub_bcrypt_sound: "bcrypt_sound stub_bcrypt"
  by (auto simp: bcrypt_sound_def stub_hash stub_compare split: list.splits if_splits)

lemmas sample_defs =
  legacy_item_def both_item_def blank_item_def hashed_legacy_item_def capital_item_def
  empty_hash_item_def

lemma readDB_sample: "readDB (sample_world script its) = its"
  by (simp add: sample_world_def readDB_def)

lemma rng_sample: "rng (sample_world script its) = script"
  by (simp add: sample_world_def)

lemma write_error_sample: "write_error (sample_world script its) = None"
  by (simp add: sample_world_def)

lemma sample_world_eq:
  "sample_world script its = sample_world script' its' \<longleftrightarrow> script = script' \<and> its = its'"
  by (auto simp: sample_world_def)

lemma sample_request_fields:
  "req_keyphrase (sample_request k) = k" "req_file (sample_request k) = None"
  by (simp_all add: sample_request_def)

lemma new_passcode_sample: "new_passcode sample_draws = ''0042''"
  by code_simp

lemma trim_sample: "trim '' apple-river-sun '' = ''apple-river-sun''"
  by (simp add: trim_def is_space_def)

lemma readDB_written: "readDB (W\<lparr>data_file := Some its\<rparr>) = its"
  by (simp add: readDB_def)

subsection \<open>Verification and authorization\<close>

text \<open>\<^verbatim>\<open>verifyPasscode\<close> catches what \<^verbatim>\<open>compare\<close> throws, so it always returns a boolean.\<close>

lemma verifyPasscode_returns:
  "verifyPasscode B item pc =
     Inr (case item of
            None \<Rightarrow> False
          | Some it \<Rightarrow>
              if truthy (passcodeHash it)
              then bcrypt_compare B (js_String pc) (passcodeHash it) = Inr True
              else truthy (passcode it) \<and> js_String pc = js_String (passcode it))"
  by (auto simp: verifyPasscode_def split: option.splits sum.splits)

lemma authorize_loop_filter:
  "authorize_loop B cs pc out =
     Inr (out @ filter (\<lambda>it. verifyPasscode B (Some it) pc = Inr True) cs)"
proof (induction cs arbitrary: out)
  case Nil
  show ?case by simp
next
  case (Cons c cs)
  obtain b where b: "verifyPasscode B (Some c) pc = Inr b"
    by (simp add: verifyPasscode_returns)
  show ?case by (cases b) (simp_all add: b Cons.IH)
qed

lemma getAuthorizedItems_eq:
  "getAuthorizedItems B W kp pc =
     Inr (filter (\<lambda>it. keyphrase it = kp \<and> verifyPasscode B (Some it) pc = Inr True) (readDB W))"
  by (simp add: getAuthorizedItems_def authorize_loop_filter conj_commute)

lemma set_order_by_createdat_desc: "set (order_by_createdat_desc rs) = set rs"
  by (auto simp: order_by_createdat_desc_def)

subsection \<open>The migration loop\<close>

lemma migrate_item_eq:
  "migrate_item B rounds it (ch, w) =
     (migrated B rounds w it, (ch \<or> hashed B rounds w it, next_rng B rounds w it))"
  by (auto simp: migrated_def hashed_def next_rng_def split: prod.splits sum.splits)

lemma migrate_items_Cons:
  "migrate_items B rounds (it # its) (ch, w) =
     (migrated B rounds w it #
        fst (migrate_items B rounds its (ch \<or> hashed B rounds w it, next_rng B rounds w it)),
      snd (migrate_items B rounds its (ch \<or> hashed B rounds w it, next_rng B rounds w it)))"
  by (simp add: migrate_item_eq case_prod_beta del: migrate_item.simps)

text \<open>The flag \<^verbatim>\<open>changed\<close> influences neither the items nor the randomness.\<close>

lemma migrate_items_flag:
  "fst (migrate_items B rounds its (ch, w)) = fst (migrate_items B rounds its (False, w)) \<and>
   snd (snd (migrate_items B rounds its (ch, w))) = snd (snd (migrate_items B rounds its (False, w))) \<and>
   fst (snd (migrate_items B rounds its (ch, w))) =
     (ch \<or> fst (snd (migrate_items B rounds its (False, w))))"
proof (induction its arbitrary: ch w)
  case Nil
  show ?case by simp
next
  case (Cons it its)
  let ?h = "hashed B rounds w it" and ?w = "next_rng B rounds w it"
  note a = Cons.IH [of "ch \<or> ?h" ?w] and b = Cons.IH [of "False \<or> ?h" ?w]
  show ?case
    unfolding migrate_items_Cons using a b by auto
qed

lemma migrate_items_length: "length (fst (migrate_items B rounds its s)) = length its"
proof (induction its arbitrary: s)
  case Nil
  show ?case by simp
next
  case (Cons it its)
  show ?case by (cases s) (simp add: migrate_items_Cons Cons.IH del: migrate_items.simps(2))
qed

lemma migrated_eq: "\<not> hashed B rounds w it \<Longrightarrow> migrated B rounds w it = it"
  by (auto simp: hashed_def migrated_def split: sum.splits)

text \<open>A run that leaves \<^verbatim>\<open>changed\<close> false has left every item as it was.\<close>

lemma migrate_items_unchanged:
  "\<not> fst (snd (migrate_items B rounds its (False, w))) \<Longrightarrow>
   fst (migrate_items B rounds its (False, w)) = its"
proof (induction its arbitrary: w)
  case Nil
  show ?case by simp
next
  case (Cons it its)
  let ?h = "hashed B rounds w it" and ?w = "next_rng B rounds w it"
  from Cons.prems have p: "\<not> fst (snd (migrate_items B rounds its (?h, ?w)))"
    by (simp add: migrate_items_Cons del: migrate_items.simps(2))
  with migrate_items_flag [of B rounds its ?h ?w]
  have h: "\<not> ?h" and r: "\<not> fst (snd (migrate_items B rounds its (False, ?w)))" by auto
  from Cons.IH [OF r] h show ?case
    by (simp add: migrate_items_Cons migrated_eq del: migrate_items.simps(2))
qed

lemma migrate_items_nth:
  "i < length its \<Longrightarrow>
   fst (migrate_items B rounds its (False, w)) ! i =
     migrated B rounds (rng_before B rounds its w i) (its ! i)"
proof (induction its arbitrary: i w)
  case Nil
  then show ?case by simp
next
  case (Cons it its)
  let ?h = "hashed B rounds w it" and ?w = "next_rng B rounds w it"
  show ?case
  proof (cases i)
    case 0
    then show ?thesis
      by (simp add: migrate_items_Cons rng_before_def del: migrate_items.simps(2))
  next
    case (Suc j)
    with Cons.prems have j: "j < length its" by simp
    have "rng_before B rounds (it # its) w (Suc j) = rng_before B rounds its ?w j"
      using migrate_items_flag [of B rounds "take j its" ?h ?w]
      by (simp add: rng_before_def migrate_items_Cons del: migrate_items.simps(2))
    moreover have "fst (migrate_items B rounds (it # its) (False, w)) ! Suc j =
        fst (migrate_items B rounds its (False, ?w)) ! j"
      using migrate_items_flag [of B rounds its ?h ?w]
      by (simp add: migrate_items_Cons del: migrate_items.simps(2))
    ultimately show ?thesis using Cons.IH [OF j, of ?w] Suc by simp
  qed
qed

text \<open>Where no item has a plaintext passcode without a hash, the loop does nothing.\<close>

lemma migrate_items_settled:
  "\<forall>it \<in> set its. \<not> (truthy (passcode it) \<and> \<not> truthy (passcodeHash it)) \<Longrightarrow>
   migrate_items B rounds its s = (its, s)"
proof (induction its)
  case Nil
  show ?case by simp
next
  case (Cons it its)
  then show ?case by (cases s) auto
qed

text \<open>What a run that returns normally leaves in the store.\<close>

lemma migratePlainPasscodes_result:
  assumes "migratePlainPasscodes B rounds W = (Inr (), W1)"
  shows "readDB W1 = fst (migrate_items B rounds (readDB W) (False, rng W))"
proof -
  obtain db ch w' where m: "migrate_items B rounds (readDB W) (False, rng W) = (db, (ch, w'))"
    by (metis prod.exhaust)
  show ?thesis
  proof (cases ch)
    case True
    with assms m show ?thesis
      by (auto simp: migratePlainPasscodes_def writeDB_def readDB_def split: option.splits)
  next
    case False
    with m migrate_items_unchanged [of B rounds "readDB W" "rng W"] have "db = readDB W" by simp
    with assms m False show ?thesis
      by (auto simp: migratePlainPasscodes_def readDB_def)
  qed
qed

lemma migratePlainPasscodes_nth:
  assumes "migratePlainPasscodes B rounds W = (Inr (), W1)"
  shows "length (readDB W1) = length (readDB W)"
    and "i < length (readDB W) \<Longrightarrow>
         readDB W1 ! i = migrated B rounds (rng_before B rounds (readDB W) (rng W) i) (readDB W ! i)"
  by (simp_all add: migratePlainPasscodes_result [OF assms] migrate_items_length migrate_items_nth)

lemma migratePlainPasscodes_completes:
  assumes "write_error W = None"
  shows "\<exists>W1. migratePlainPasscodes B rounds W = (Inr (), W1)"
  using assms by (auto simp: migratePlainPasscodes_def writeDB_def split: prod.splits)

lemma stub_run:
  "migratePlainPasscodes stub_bcrypt rounds (sample_world script its) =
     (case migrate_items stub_bcrypt rounds its (False, script) of
        (db, (changed, w')) \<Rightarrow> (Inr (), sample_world w' (if changed then db else its)))"
  by (simp add: migratePlainPasscodes_def sample_world_def readDB_def writeDB_def split: prod.splits)

subsection \<open>The handlers\<close>

lemma keyphrase_new_item:
  "keyphrase (new_item E req fname mime kp h) = kp \<and>
   passcodeHash (new_item E req fname mime kp h) = Str h \<and>
   passcode (new_item E req fname mime kp h) = Undefined"
  by (simp add: new_item_def)

lemma host_cases:
  "host B rounds E req W =
     (case providedKey E (req_keyphrase req) of
        Inl err \<Rightarrow> (failed_to_host, W)
      | Inr pk \<Rightarrow>
          (case bcrypt_hash B (rng W) (new_passcode E) rounds of
             (Inl err, w') \<Rightarrow> (failed_to_host, W\<lparr>rng := w'\<rparr>)
           | (Inr h, w') \<Rightarrow>
               (case write_error W of
                  Some e \<Rightarrow>
                    (failed_to_host,
                     if write_truncates W then W\<lparr>rng := w', data_file := None\<rparr>
                     else W\<lparr>rng := w'\<rparr>)
                | None \<Rightarrow>
                    (host_success req
                       (new_item E req (disk_filename req) (disk_mimeType req) (choose_keyphrase E pk) h)
                       (new_passcode E),
                     W\<lparr>rng := w',
                       data_file := Some (readDB W @
                         [new_item E req (disk_filename req) (disk_mimeType req)
                            (choose_keyphrase E pk) h])\<rparr>))))"
  by (simp add: host_def writeDB_def Let_def split: sum.splits prod.splits option.splits)

lemma host_stores:
  assumes "providedKey E (req_keyphrase req) = Inr pk"
    and "bcrypt_hash B (rng W) (new_passcode E) rounds = (Inr h, w')"
    and "write_error W = None"
  shows "\<exists>it. host B rounds E req W =
                (host_success req it (new_passcode E),
                 W\<lparr>rng := w', data_file := Some (readDB W @ [it])\<rparr>) \<and>
              keyphrase it = choose_keyphrase E pk \<and> passcodeHash it = Str h \<and>
              passcode it = Undefined"
  using assms keyphrase_new_item [of E req "disk_filename req" "disk_mimeType req" "choose_keyphrase E pk" h]
  by (intro exI [of _ "new_item E req (disk_filename req) (disk_mimeType req) (choose_keyphrase E pk) h"])
     (simp add: host_cases)

text \<open>The handler appends an item with a hash and no plaintext passcode, or leaves the
  store as it was or unreadable: it never makes an item hold both fields.\<close>

lemma host_keeps_data_model:
  assumes "\<forall>it \<in> set (readDB W). passcodeHash it \<noteq> Undefined \<longrightarrow> passcode it = Undefined"
  shows "\<forall>it \<in> set (readDB (snd (host B rounds E req W))).
           passcodeHash it \<noteq> Undefined \<longrightarrow> passcode it = Undefined"
proof -
  have r: "readDB (W\<lparr>rng := w\<rparr>) = readDB W" "readDB (W\<lparr>rng := w, data_file := None\<rparr>) = []"
    for w
    by (simp_all add: readDB_def)
  show ?thesis
    using assms
    by (auto simp: host_cases r readDB_written keyphrase_new_item
          split: sum.splits prod.splits option.splits)
qed

lemma error_body_keys: "fst ` set (error_body cfg msg e) \<subseteq> {''error'', ''detail'', ''stack''}"
  by (simp add: error_body_def)

lemma unhandled_error_resp:
  "status (unhandled_error cfg e) = 500 \<and>
   fst ` set (json (unhandled_error cfg e)) \<subseteq> {''error'', ''detail'', ''stack''}"
  by (simp add: unhandled_error_def)

lemma upload_file_resp:
  assumes "upload_file cfg E req P = Inl resp"
  shows "status resp = 500 \<and> fst ` set (json resp) \<subseteq> {''error'', ''detail'', ''stack''}"
proof (cases "req_file req")
  case None
  with assms show ?thesis by (simp add: upload_file_def)
next
  case (Some f)
  show ?thesis
  proof (cases "truthy (S3_BUCKET cfg)")
    case False
    with assms Some show ?thesis by (auto simp: upload_file_def)
  next
    case True
    with assms Some obtain err where "s3_error P = Some err"
      and "resp = \<lparr>status = 500, json = error_body cfg ''failed to upload file to S3'' err\<rparr>"
      by (auto simp: upload_file_def Let_def split: option.splits)
    with error_body_keys [of cfg "''failed to upload file to S3''" err] show ?thesis by simp
  qed
qed

text \<open>While the database rejects queries, every path through the Postgres handler ends in an
  error response and leaves the table alone.\<close>

lemma host_pg_failure:
  assumes "query_error P = Some e"
  shows "status (fst (host_pg B rounds cfg E req P)) = 500"
    and "fst ` set (json (fst (host_pg B rounds cfg E req P))) \<subseteq> {''error'', ''detail'', ''stack''}"
    and "pg_table (snd (host_pg B rounds cfg E req P)) = pg_table P"
proof -
  let ?r = "host_pg B rounds cfg E req P"
  have "status (fst ?r) = 500 \<and>
        fst ` set (json (fst ?r)) \<subseteq> {''error'', ''detail'', ''stack''} \<and>
        pg_table (snd ?r) = pg_table P"
  proof (cases "providedKey E (req_keyphrase req)")
    case (Inl err)
    with unhandled_error_resp [of cfg err] show ?thesis by (simp add: host_pg_def)
  next
    case (Inr pk)
    obtain res w' where hsh: "bcrypt_hash B (pg_rng P) (new_passcode E) rounds = (res, w')"
      by (metis prod.exhaust)
    show ?thesis
    proof (cases res)
      case (Inl err)
      with Inr hsh unhandled_error_resp [of cfg err] show ?thesis
        by (simp add: host_pg_def Let_def)
    next
      case h: (Inr h)
      show ?thesis
      proof (cases "upload_file cfg E req (P\<lparr>pg_rng := w'\<rparr>)")
        case (Inl resp)
        with Inr hsh h upload_file_resp [OF Inl] show ?thesis
          by (simp add: host_pg_def Let_def)
      next
        case up: (Inr fm)
        with Inr hsh h assms
          error_body_keys [of cfg "''failed to write item to DB''" e]
        show ?thesis
          by (cases fm) (simp add: host_pg_def insertItemToDb_def Let_def)
      qed
    qed
  qed
  then show "status (fst ?r) = 500"
    and "fst ` set (json (fst ?r)) \<subseteq> {''error'', ''detail'', ''stack''}"
    and "pg_table (snd ?r) = pg_table P"
    by simp_all
qed

lemma pick_in_words: "0 \<le> r \<Longrightarrow> r < 1 \<Longrightarrow> pick r \<in> set words"
proof -
  assume r: "0 \<le> r" "r < 1"
  let ?n = "real (length words)"
  have n: "?n = 15" by (simp add: words_def)
  from r have "0 \<le> r * ?n" and "r * ?n < ?n" by (simp_all add: n)
  then have "0 \<le> \<lfloor>r * ?n\<rfloor>" and "\<lfloor>r * ?n\<rfloor> < int (length words)"
    by (simp_all add: floor_less_iff)
  then have "0 \<le> \<lfloor>r * ?n\<rfloor> \<and> \<lfloor>r * ?n\<rfloor> < int (length words)"
    and "nat \<lfloor>r * ?n\<rfloor> < length words"
    by (simp_all add: nat_less_iff)
  then show ?thesis by (simp add: pick_def Let_def del: of_nat_less_iff)
qed

lemma trim_Nil: "trim [] = []"
  by (simp add: trim_def)

lemma providedKey_trimmed: "trim s \<noteq> [] \<Longrightarrow> providedKey E (Str s) = Inr (Str (trim s))"
  by (cases "s = []") (simp_all add: providedKey_def trim_Nil)

lemma providedKey_blank:
  "\<not> truthy k \<or> (\<exists>s. k = Str s \<and> trim s = []) \<Longrightarrow>
   \<exists>pk. providedKey E k = Inr pk \<and> \<not> truthy pk"
  by (auto simp: providedKey_def)

section \<open>Verification of a passcode\<close>

text \<open>
  Claim C1. For every plaintext passcode \<open>p\<close> and every cost factor, verifying \<open>p\<close> against
  the hash that \<^verbatim>\<open>bcrypt.hash\<close> produced from \<open>p\<close> returns true. The hash is the one
  the library resolved to, stored as \<^verbatim>\<open>passcodeHash\<close> of any record; the library is assumed
  to keep its contract \<open>bcrypt_sound\<close>.
\<close>

theorem verify_hash_roundtrip:
  assumes "bcrypt_sound B" and "bcrypt_hash B w p rounds = (Inr h, w')"
  shows "verifyPasscode B (Some (it\<lparr>passcodeHash := Str h\<rparr>)) (Str p) = Inr True"
proof -
  from assms have "h \<noteq> []" and "bcrypt_compare B p (Str h) = Inr True"
    unfolding bcrypt_sound_def by blast+
  then show ?thesis by (simp add: verifyPasscode_def)
qed

theorem verify_hash_roundtrip_witness:
  "bcrypt_hash stub_bcrypt [True] ''0042'' 10 = (Inr ''$2b$0042'', []) \<and>
   verifyPasscode stub_bcrypt (Some (blank_item\<lparr>passcodeHash := Str ''$2b$0042''\<rparr>)) (Str ''0042'')
     = Inr True"
proof -
  have h: "bcrypt_hash stub_bcrypt [True] ''0042'' 10 = (Inr ''$2b$0042'', [])"
    by (simp add: stub_hash)
  show ?thesis
    using h verify_hash_roundtrip [OF stub_bcrypt_sound h, of blank_item] by simp
qed

text \<open>
  Claim C8 as stated fails. The empty string is a hash the library cannot parse, and it is
  falsy, so \<^verbatim>\<open>verifyPasscode\<close> takes it for no hash: on a record that still holds its legacy
  passcode beside it, the plaintext comparison decides and the matching passcode is accepted.
\<close>

theorem verifyPasscode_malformed_hash_counterexample:
  "passcodeHash empty_hash_item = Str [] \<and> passcode empty_hash_item = Str ''0042'' \<and>
   bcrypt_compare stub_bcrypt ''0042'' (Str []) = Inr False \<and>
   verifyPasscode stub_bcrypt (Some empty_hash_item) (Str ''0042'') = Inr True"
  by (simp add: verifyPasscode_def stub_compare sample_defs)

text \<open>
  Claim C8, amended. For every plaintext and every stored hash that is truthy (a non-empty
  string, or any other truthy value) and that the library cannot parse, that is on which
  \<^verbatim>\<open>compare\<close> rejects or resolves to false, \<^verbatim>\<open>verifyPasscode\<close> returns false and raises
  nothing. A falsy hash, such as the empty string, counts as no hash: \<^verbatim>\<open>verifyPasscode\<close>
  then raises nothing either and returns whether the record has a legacy passcode equal to the
  plaintext, so it returns false on a record without legacy passcode.
\<close>

theorem verifyPasscode_malformed_hash:
  "(truthy (passcodeHash it) \<and> bcrypt_compare B (js_String pc) (passcodeHash it) \<noteq> Inr True \<longrightarrow>
      verifyPasscode B (Some it) pc = Inr False) \<and>
   (\<not> truthy (passcodeHash it) \<longrightarrow>
      verifyPasscode B (Some it) pc =
        Inr (truthy (passcode it) \<and> js_String pc = js_String (passcode it)))"
  by (auto simp: verifyPasscode_returns)

theorem verifyPasscode_malformed_hash_witness:
  "verifyPasscode stub_bcrypt (Some (legacy_item\<lparr>passcodeHash := Str ''not-a-hash''\<rparr>)) (Str ''0042'')
     = Inr False \<and>
   verifyPasscode stub_bcrypt (Some (blank_item\<lparr>passcodeHash := Str []\<rparr>)) (Str ''0042'') = Inr False \<and>
   verifyPasscode stub_bcrypt (Some empty_hash_item) (Str ''1111'') = Inr False"
proof -
  have "verifyPasscode stub_bcrypt (Some (legacy_item\<lparr>passcodeHash := Str ''not-a-hash''\<rparr>))
          (Str ''0042'') = Inr False"
    using verifyPasscode_malformed_hash
            [of "legacy_item\<lparr>passcodeHash := Str ''not-a-hash''\<rparr>" stub_bcrypt "Str ''0042''"]
    by (simp add: stub_compare sample_defs)
  moreover have "verifyPasscode stub_bcrypt (Some (blank_item\<lparr>passcodeHash := Str []\<rparr>))
          (Str ''0042'') = Inr False"
    using verifyPasscode_malformed_hash
            [of "blank_item\<lparr>passcodeHash := Str []\<rparr>" stub_bcrypt "Str ''0042''"]
    by (simp add: sample_defs)
  moreover have "verifyPasscode stub_bcrypt (Some empty_hash_item) (Str ''1111'') = Inr False"
    using verifyPasscode_malformed_hash [of empty_hash_item stub_bcrypt "Str ''1111''"]
    by (simp add: sample_defs)
  ultimately show ?thesis by blast
qed

text \<open>
  Claim C10. \<^verbatim>\<open>verifyPasscode\<close> returns false, and raises nothing, for every plaintext when
  the item is null, and when the item holds neither a hash nor a legacy passcode (each is
  absent or otherwise falsy).
\<close>

theorem verifyPasscode_without_credential:
  "verifyPasscode B None pc = Inr False \<and>
   (\<not> truthy (passcodeHash it) \<and> \<not> truthy (passcode it) \<longrightarrow>
      verifyPasscode B (Some it) pc = Inr False)"
  by (simp add: verifyPasscode_def)

theorem verifyPasscode_without_credential_witness:
  "\<not> truthy (passcodeHash blank_item) \<and> \<not> truthy (passcode blank_item) \<and>
   verifyPasscode stub_bcrypt (Some blank_item) (Str ''0042'') = Inr False"
  using verifyPasscode_without_credential [of stub_bcrypt "Str ''0042''" blank_item]
  by (simp add: blank_item_def)

section \<open>Authorization\<close>

text \<open>
  Claim C2. For every store, keyphrase and passcode, \<^verbatim>\<open>getAuthorizedItems\<close> returns exactly
  the stored items whose keyphrase equals the given one and whose credential verifies. The
  JSON-file server returns them in the order of the file. The Postgres server, when its query
  succeeds, returns the same set of items, read from the rows of the table. Equality of
  keyphrases is equality of the texts, so a keyphrase that differs in any character is
  never matched.
\<close>

theorem getAuthorizedItems_exact:
  "getAuthorizedItems B W kp pc =
     Inr (filter (\<lambda>it. keyphrase it = kp \<and> verifyPasscode B (Some it) pc = Inr True) (readDB W)) \<and>
   (query_error P = None \<longrightarrow>
      (\<exists>out. getAuthorizedItems_pg B P k pc = Inr out \<and>
         set out = {it \<in> rowToItem ` set (pg_table P).
                      keyphrase it = Str k \<and> verifyPasscode B (Some it) pc = Inr True}))"
proof
  show "getAuthorizedItems B W kp pc =
     Inr (filter (\<lambda>it. keyphrase it = kp \<and> verifyPasscode B (Some it) pc = Inr True) (readDB W))"
    by (rule getAuthorizedItems_eq)
next
  show "query_error P = None \<longrightarrow>
      (\<exists>out. getAuthorizedItems_pg B P k pc = Inr out \<and>
         set out = {it \<in> rowToItem ` set (pg_table P).
                      keyphrase it = Str k \<and> verifyPasscode B (Some it) pc = Inr True})"
  proof
    assume q: "query_error P = None"
    have k: "keyphrase (rowToItem r) = row_keyphrase r" for r
      by (simp add: rowToItem_def)
    show "\<exists>out. getAuthorizedItems_pg B P k pc = Inr out \<and>
         set out = {it \<in> rowToItem ` set (pg_table P).
                      keyphrase it = Str k \<and> verifyPasscode B (Some it) pc = Inr True}"
      by (auto simp: getAuthorizedItems_pg_def findItemsByKeyphrase_def q authorize_loop_filter
            set_order_by_createdat_desc k)
  qed
qed

theorem getAuthorizedItems_exact_witness:
  "getAuthorizedItems stub_bcrypt (sample_world [] [legacy_item, capital_item])
     (Str ''apple-river-sun'') (Str ''0042'') = Inr [legacy_item] \<and>
   query_error (sample_pg None) = None \<and>
   (\<exists>out. getAuthorizedItems_pg stub_bcrypt (sample_pg None) ''apple-river-sun'' (Str ''0042'') = Inr out \<and>
      set out = {rowToItem sample_row})"
proof -
  have q: "query_error (sample_pg None) = None" by (simp add: sample_pg_def)
  have v1: "verifyPasscode stub_bcrypt (Some legacy_item) (Str ''0042'') = Inr True"
    by (simp add: verifyPasscode_def sample_defs)
  have k: "keyphrase legacy_item = Str ''apple-river-sun''"
    "keyphrase capital_item \<noteq> Str ''apple-river-sun''"
    by (simp_all add: sample_defs)
  have v2: "verifyPasscode stub_bcrypt (Some (rowToItem r)) (Str ''0042'') = Inr True"
    if "row_passcodehash r = Str ''$2b$0042''" for r
    using that by (simp add: verifyPasscode_def rowToItem_def stub_compare)
  have t: "pg_table (sample_pg None) =
      [sample_row, sample_row\<lparr>row_id := Str ''r2'', row_keyphrase := Str ''Apple-River-Sun''\<rparr>]"
    by (simp add: sample_pg_def)
  have kr: "keyphrase (rowToItem sample_row) = Str ''apple-river-sun''"
    "keyphrase (rowToItem (sample_row\<lparr>row_id := Str ''r2'', row_keyphrase := Str ''Apple-River-Sun''\<rparr>))
       \<noteq> Str ''apple-river-sun''"
    by (simp_all add: rowToItem_def sample_row_def)
  have hr: "row_passcodehash sample_row = Str ''$2b$0042''" by (simp add: sample_row_def)
  note th = getAuthorizedItems_exact [of stub_bcrypt "sample_world [] [legacy_item, capital_item]"
      "Str ''apple-river-sun''" "Str ''0042''" "sample_pg None" "''apple-river-sun''"]
  from th have "getAuthorizedItems stub_bcrypt (sample_world [] [legacy_item, capital_item])
     (Str ''apple-river-sun'') (Str ''0042'') = Inr [legacy_item]"
    by (simp add: readDB_sample v1 k)
  moreover from th q obtain out
    where "getAuthorizedItems_pg stub_bcrypt (sample_pg None) ''apple-river-sun'' (Str ''0042'') = Inr out"
      and "set out = {it \<in> rowToItem ` set (pg_table (sample_pg None)).
                      keyphrase it = Str ''apple-river-sun'' \<and>
                      verifyPasscode stub_bcrypt (Some it) (Str ''0042'') = Inr True}"
    by blast
  moreover have "{it \<in> rowToItem ` set (pg_table (sample_pg None)).
                      keyphrase it = Str ''apple-river-sun'' \<and>
                      verifyPasscode stub_bcrypt (Some it) (Str ''0042'') = Inr True} =
                 {rowToItem sample_row}"
    using kr v2 [OF hr] by (auto simp: t)
  ultimately show ?thesis using q by auto
qed

section \<open>The legacy migration\<close>

text \<open>
  Claim C7. When the write of the file does not fail, the migration returns normally
  whatever the hashing does, and every item is treated on its own: an item with a plaintext
  passcode and no hash whose hashing fails is left exactly as it was, one whose hashing
  succeeds gets the hash and loses the plaintext, and every other item is left as it was. A
  failure on one item changes nothing for the items before or after it.
\<close>

theorem migration_isolates_hash_failure:
  assumes "write_error W = None"
  shows "\<exists>W1. migratePlainPasscodes B rounds W = (Inr (), W1) \<and>
           length (readDB W1) = length (readDB W) \<and>
           (\<forall>i < length (readDB W).
              readDB W1 ! i =
                (if truthy (passcode (readDB W ! i)) \<and> \<not> truthy (passcodeHash (readDB W ! i)) then
                   (case fst (bcrypt_hash B (rng_before B rounds (readDB W) (rng W) i)
                                (js_String (passcode (readDB W ! i))) rounds) of
                      Inr h \<Rightarrow> (readDB W ! i)\<lparr>passcodeHash := Str h, passcode := Undefined\<rparr>
                    | Inl err \<Rightarrow> readDB W ! i)
                 else readDB W ! i))"
proof -
  from migratePlainPasscodes_completes [OF assms]
  obtain W1 where r: "migratePlainPasscodes B rounds W = (Inr (), W1)" by blast
  from migratePlainPasscodes_nth [OF r] r show ?thesis
    unfolding migrated_def by blast
qed

theorem migration_isolates_hash_failure_witness:
  "write_error (sample_world [False, True] [legacy_item, legacy_item\<lparr>item_id := Str ''a2''\<rparr>]) = None \<and>
   (\<exists>W1. migratePlainPasscodes stub_bcrypt 10
            (sample_world [False, True] [legacy_item, legacy_item\<lparr>item_id := Str ''a2''\<rparr>]) =
            (Inr (), W1) \<and>
      readDB W1 = [legacy_item, hashed_legacy_item\<lparr>item_id := Str ''a2''\<rparr>])"
proof -
  let ?W = "sample_world [False, True] [legacy_item, legacy_item\<lparr>item_id := Str ''a2''\<rparr>]"
  have h: "write_error ?W = None" by (simp add: write_error_sample)
  from migration_isolates_hash_failure [OF h, of stub_bcrypt 10]
  obtain W1 where r: "migratePlainPasscodes stub_bcrypt 10 ?W = (Inr (), W1)"
    and l: "length (readDB W1) = length (readDB ?W)"
    and n: "\<forall>i < length (readDB ?W).
              readDB W1 ! i =
                (if truthy (passcode (readDB ?W ! i)) \<and> \<not> truthy (passcodeHash (readDB ?W ! i)) then
                   (case fst (bcrypt_hash stub_bcrypt (rng_before stub_bcrypt 10 (readDB ?W) (rng ?W) i)
                                (js_String (passcode (readDB ?W ! i))) 10) of
                      Inr h \<Rightarrow> (readDB ?W ! i)\<lparr>passcodeHash := Str h, passcode := Undefined\<rparr>
                    | Inl err \<Rightarrow> readDB ?W ! i)
                 else readDB ?W ! i)"
    by blast
  from l have l2: "length (readDB W1) = 2" by (simp add: readDB_sample)
  from n have "readDB W1 ! 0 = legacy_item"
    by (simp add: readDB_sample rng_sample rng_before_def stub_hash sample_defs)
  moreover from n have "readDB W1 ! 1 = hashed_legacy_item\<lparr>item_id := Str ''a2''\<rparr>"
    by (simp add: readDB_sample rng_sample rng_before_def stub_hash sample_defs)
  ultimately have "readDB W1 = [legacy_item, hashed_legacy_item\<lparr>item_id := Str ''a2''\<rparr>]"
    using l2 by (auto simp: list_eq_iff_nth_eq less_Suc_eq numeral_2_eq_2)
  with h r show ?thesis by blast
qed

text \<open>
  Claim C3 as stated fails. The store holds one legacy record. In the first run the hashing
  of its passcode fails, the record is left alone and the run returns normally; in the second
  run the hashing succeeds and the record is rewritten, so the second run does change an item.
\<close>

theorem migration_second_run_counterexample:
  "migratePlainPasscodes stub_bcrypt 10 (sample_world [False, True] [legacy_item]) =
     (Inr (), sample_world [True] [legacy_item]) \<and>
   migratePlainPasscodes stub_bcrypt 10 (sample_world [True] [legacy_item]) =
     (Inr (), sample_world [] [hashed_legacy_item]) \<and>
   hashed_legacy_item \<noteq> legacy_item"
  by (simp add: stub_run stub_hash sample_world_eq sample_defs)

text \<open>
  Claim C3, amended. If a first run returned normally and left no item with a plaintext
  passcode and no hash (no hashing failed in it), a second run changes no item, writes
  nothing and returns the state the first run left. In the first run every item that already
  held a hash stayed as it was.
\<close>

theorem migration_second_run:
  assumes "migratePlainPasscodes B rounds W = (Inr (), W1)"
    and "\<forall>it \<in> set (readDB W1). \<not> (truthy (passcode it) \<and> \<not> truthy (passcodeHash it))"
  shows "migratePlainPasscodes B rounds W1 = (Inr (), W1) \<and>
         length (readDB W1) = length (readDB W) \<and>
         (\<forall>i < length (readDB W).
            truthy (passcodeHash (readDB W ! i)) \<longrightarrow> readDB W1 ! i = readDB W ! i)"
proof -
  have "migrate_items B rounds (readDB W1) (False, rng W1) = (readDB W1, (False, rng W1))"
    using assms(2) by (intro migrate_items_settled) simp
  then have a: "migratePlainPasscodes B rounds W1 = (Inr (), W1)"
    by (simp add: migratePlainPasscodes_def)
  have c: "readDB W1 ! i = readDB W ! i"
    if "i < length (readDB W)" and "truthy (passcodeHash (readDB W ! i))" for i
    using that by (simp add: migratePlainPasscodes_nth [OF assms(1)] migrated_def)
  from a migratePlainPasscodes_nth(1) [OF assms(1)] c show ?thesis by blast
qed

theorem migration_second_run_witness:
  "migratePlainPasscodes stub_bcrypt 10 (sample_world [True] [legacy_item, both_item]) =
     (Inr (), sample_world [] [hashed_legacy_item, both_item]) \<and>
   migratePlainPasscodes stub_bcrypt 10 (sample_world [] [hashed_legacy_item, both_item]) =
     (Inr (), sample_world [] [hashed_legacy_item, both_item])"
proof -
  have a: "migratePlainPasscodes stub_bcrypt 10 (sample_world [True] [legacy_item, both_item]) =
     (Inr (), sample_world [] [hashed_legacy_item, both_item])"
    by (simp add: stub_run stub_hash sample_world_eq sample_defs)
  have b: "\<forall>it \<in> set (readDB (sample_world [] [hashed_legacy_item, both_item])).
             \<not> (truthy (passcode it) \<and> \<not> truthy (passcodeHash it))"
    by (simp add: readDB_sample sample_defs)
  from migration_second_run [OF a b] a show ?thesis by simp
qed

text \<open>
  Claim C4. Take a store that keeps the data model: no item holds a plaintext passcode
  beside a hash. The handler that creates items keeps it so (\<open>host_keeps_data_model\<close>), and
  legacy records hold the plaintext only. After a migration that returned normally, every
  stored item whose hash is set has no plaintext passcode field; every item the migration
  changed has its hash set and its plaintext deleted, and the number of items is the same.
\<close>

theorem migration_deletes_plaintext:
  assumes "migratePlainPasscodes B rounds W = (Inr (), W1)"
    and "\<forall>it \<in> set (readDB W). passcodeHash it \<noteq> Undefined \<longrightarrow> passcode it = Undefined"
  shows "(\<forall>it \<in> set (readDB W1). passcodeHash it \<noteq> Undefined \<longrightarrow> passcode it = Undefined) \<and>
         length (readDB W1) = length (readDB W) \<and>
         (\<forall>i < length (readDB W).
            readDB W1 ! i \<noteq> readDB W ! i \<longrightarrow>
              passcodeHash (readDB W1 ! i) \<noteq> Undefined \<and> passcode (readDB W1 ! i) = Undefined)"
proof -
  note len = migratePlainPasscodes_nth(1) [OF assms(1)]
  note nth = migratePlainPasscodes_nth(2) [OF assms(1)]
  have m: "migrated B rounds w it \<noteq> it \<longrightarrow>
             passcodeHash (migrated B rounds w it) \<noteq> Undefined \<and>
             passcode (migrated B rounds w it) = Undefined"
    for w it
    by (auto simp: migrated_def split: sum.splits)
  have inv: "passcodeHash (migrated B rounds w it) \<noteq> Undefined \<longrightarrow>
             passcode (migrated B rounds w it) = Undefined"
    if "passcodeHash it \<noteq> Undefined \<longrightarrow> passcode it = Undefined" for w it
    using that by (auto simp: migrated_def split: sum.splits)
  have pres: "\<forall>it \<in> set (readDB W1). passcodeHash it \<noteq> Undefined \<longrightarrow> passcode it = Undefined"
  proof
    fix it assume "it \<in> set (readDB W1)"
    then obtain i where i: "i < length (readDB W1)" "it = readDB W1 ! i"
      by (auto simp: in_set_conv_nth)
    with len have "readDB W ! i \<in> set (readDB W)" by simp
    with assms(2) inv [of "readDB W ! i"] nth [of i] i len
    show "passcodeHash it \<noteq> Undefined \<longrightarrow> passcode it = Undefined" by simp
  qed
  from len nth m pres show ?thesis by (metis (no_types, lifting))
qed

theorem migration_deletes_plaintext_witness:
  "migratePlainPasscodes stub_bcrypt 10 (sample_world [True] [legacy_item]) =
     (Inr (), sample_world [] [hashed_legacy_item]) \<and>
   passcodeHash legacy_item = Undefined \<and>
   hashed_legacy_item \<noteq> legacy_item \<and>
   passcodeHash hashed_legacy_item \<noteq> Undefined \<and> passcode hashed_legacy_item = Undefined"
proof -
  have a: "migratePlainPasscodes stub_bcrypt 10 (sample_world [True] [legacy_item]) =
     (Inr (), sample_world [] [hashed_legacy_item])"
    by (simp add: stub_run stub_hash sample_world_eq sample_defs)
  have b: "\<forall>it \<in> set (readDB (sample_world [True] [legacy_item])).
             passcodeHash it \<noteq> Undefined \<longrightarrow> passcode it = Undefined"
    by (simp add: readDB_sample sample_defs)
  have c: "hashed_legacy_item \<noteq> legacy_item"
    by (simp add: sample_defs)
  have d: "passcodeHash legacy_item = Undefined"
    by (simp add: sample_defs)
  from migration_deletes_plaintext [OF a b] c
  have "passcodeHash hashed_legacy_item \<noteq> Undefined \<and> passcode hashed_legacy_item = Undefined"
    by (simp add: readDB_sample)
  with a c d show ?thesis by blast
qed

text \<open>
  Claim C5 as stated fails. When the hashing of the legacy record fails during the
  migration, the migration returns normally and the record still holds its plaintext passcode
  and no hash.
\<close>

theorem legacy_record_counterexample:
  "migratePlainPasscodes stub_bcrypt 10 (sample_world [False] [legacy_item]) =
     (Inr (), sample_world [] [legacy_item]) \<and>
   passcode legacy_item = Str ''0042'' \<and> passcodeHash legacy_item = Undefined"
  by (simp add: stub_run stub_hash sample_world_eq sample_defs)

text \<open>
  Claim C5, amended. Take a stored record with a truthy legacy passcode and no hash, and
  the request that carries its keyphrase and exactly that passcode. Before the migration the
  record is among the authorized items, by the plaintext comparison. After a migration that
  returned normally the record at the same place is again among the authorized items. If the
  hashing of its passcode succeeded, that record now holds the hash, which is truthy, and no
  plaintext passcode; if the hashing failed, the record is unchanged.
\<close>

theorem legacy_record_before_and_after:
  assumes "i < length (readDB W)"
    and "truthy (passcode (readDB W ! i))" and "\<not> truthy (passcodeHash (readDB W ! i))"
    and "js_String pc = js_String (passcode (readDB W ! i))"
    and "bcrypt_sound B"
    and "migratePlainPasscodes B rounds W = (Inr (), W1)"
  shows "(\<exists>out. getAuthorizedItems B W (keyphrase (readDB W ! i)) pc = Inr out \<and>
                 readDB W ! i \<in> set out) \<and>
         (\<exists>out. getAuthorizedItems B W1 (keyphrase (readDB W ! i)) pc = Inr out \<and>
                 readDB W1 ! i \<in> set out) \<and>
         (case fst (bcrypt_hash B (rng_before B rounds (readDB W) (rng W) i)
                      (js_String (passcode (readDB W ! i))) rounds) of
            Inr h \<Rightarrow>
              readDB W1 ! i = (readDB W ! i)\<lparr>passcodeHash := Str h, passcode := Undefined\<rparr> \<and>
              truthy (Str h)
          | Inl err \<Rightarrow> readDB W1 ! i = readDB W ! i)"
proof -
  let ?it = "readDB W ! i" and ?w = "rng_before B rounds (readDB W) (rng W) i"
  let ?p = "js_String (passcode ?it)"
  note len = migratePlainPasscodes_nth(1) [OF assms(6)]
  have nth: "readDB W1 ! i = migrated B rounds ?w ?it"
    using assms(1) by (rule migratePlainPasscodes_nth(2) [OF assms(6)])
  have before: "verifyPasscode B (Some ?it) pc = Inr True"
    using assms(2-4) by (simp add: verifyPasscode_def)
  have sound: "h \<noteq> [] \<and> bcrypt_compare B ?p (Str h) = Inr True"
    if "fst (bcrypt_hash B ?w ?p rounds) = Inr h" for h
  proof -
    from that have "bcrypt_hash B ?w ?p rounds = (Inr h, snd (bcrypt_hash B ?w ?p rounds))"
      by (metis prod.collapse)
    with assms(5) show ?thesis unfolding bcrypt_sound_def by blast
  qed
  have after: "verifyPasscode B (Some (migrated B rounds ?w ?it)) pc = Inr True"
  proof (cases "fst (bcrypt_hash B ?w ?p rounds)")
    case (Inl e)
    with before show ?thesis by (simp add: migrated_def)
  next
    case (Inr h)
    with sound [OF Inr] assms(2-4) show ?thesis
      by (simp add: migrated_def verifyPasscode_def)
  qed
  have kp: "keyphrase (migrated B rounds ?w ?it) = keyphrase ?it"
    by (simp add: migrated_def split: sum.splits)
  have 1: "\<exists>out. getAuthorizedItems B W (keyphrase ?it) pc = Inr out \<and> ?it \<in> set out"
    using assms(1) before by (simp add: getAuthorizedItems_eq)
  have "readDB W1 ! i \<in> set (readDB W1)" using assms(1) len by simp
  then have 2: "\<exists>out. getAuthorizedItems B W1 (keyphrase ?it) pc = Inr out \<and>
                  readDB W1 ! i \<in> set out"
    using after kp nth by (simp add: getAuthorizedItems_eq)
  have 3: "case fst (bcrypt_hash B ?w ?p rounds) of
            Inr h \<Rightarrow> readDB W1 ! i = ?it\<lparr>passcodeHash := Str h, passcode := Undefined\<rparr> \<and>
                     truthy (Str h)
          | Inl err \<Rightarrow> readDB W1 ! i = ?it"
    using assms(2,3) sound nth by (auto simp: migrated_def split: sum.splits)
  from 1 2 3 show ?thesis by blast
qed

theorem legacy_record_before_and_after_witness:
  "migratePlainPasscodes stub_bcrypt 10 (sample_world [True] [legacy_item]) =
     (Inr (), sample_world [] [hashed_legacy_item]) \<and>
   (\<exists>out. getAuthorizedItems stub_bcrypt (sample_world [True] [legacy_item])
             (Str ''apple-river-sun'') (Str ''0042'') = Inr out \<and> legacy_item \<in> set out) \<and>
   (\<exists>out. getAuthorizedItems stub_bcrypt (sample_world [] [hashed_legacy_item])
             (Str ''apple-river-sun'') (Str ''0042'') = Inr out \<and> hashed_legacy_item \<in> set out) \<and>
   truthy (passcodeHash hashed_legacy_item) \<and> passcode hashed_legacy_item = Undefined"
proof -
  let ?W = "sample_world [True] [legacy_item]" and ?W1 = "sample_world [] [hashed_legacy_item]"
  have a: "migratePlainPasscodes stub_bcrypt 10 ?W = (Inr (), ?W1)"
    by (simp add: stub_run stub_hash sample_world_eq sample_defs)
  have i: "0 < length (readDB ?W)" by (simp add: readDB_sample)
  have p: "truthy (passcode (readDB ?W ! 0))" and h: "\<not> truthy (passcodeHash (readDB ?W ! 0))"
    and e: "js_String (Str ''0042'') = js_String (passcode (readDB ?W ! 0))"
    by (simp_all add: readDB_sample sample_defs)
  have k: "keyphrase legacy_item = Str ''apple-river-sun''"
    by (simp add: sample_defs)
  note t = legacy_record_before_and_after [OF i p h e stub_bcrypt_sound a]
  from t have "\<exists>out. getAuthorizedItems stub_bcrypt ?W (Str ''apple-river-sun'') (Str ''0042'') = Inr out \<and>
                 legacy_item \<in> set out"
    by (simp add: readDB_sample k)
  moreover from t have "\<exists>out. getAuthorizedItems stub_bcrypt ?W1 (Str ''apple-river-sun'') (Str ''0042'') = Inr out \<and>
                 hashed_legacy_item \<in> set out"
    by (simp add: readDB_sample k)
  moreover have "truthy (passcodeHash hashed_legacy_item) \<and> passcode hashed_legacy_item = Undefined"
    by (simp add: sample_defs)
  ultimately show ?thesis using a by blast
qed

section \<open>Creating an item\<close>

text \<open>
  Claim C6. When the insert into the store fails, the handler answers with status 500 and an
  error body, and the generated passcode is in no field of the response. In the JSON-file
  server a failing write of the file yields the fixed body \<^verbatim>\<open>failed to host item\<close>; the file
  is then as it was, or cut off and unreadable. In the Postgres server a failing query yields
  a body with no other fields than \<^verbatim>\<open>error\<close>, \<^verbatim>\<open>detail\<close> and \<^verbatim>\<open>stack\<close> and leaves the table
  as it was; when the handler got as far as the insert, the body is built from the database
  error alone.
\<close>

theorem host_insert_failure:
  "(write_error W = Some e \<longrightarrow>
      fst (host B rounds E req W) = failed_to_host \<and>
      status (fst (host B rounds E req W)) = 500 \<and>
      fst ` set (json (fst (host B rounds E req W))) = {''error''} \<and>
      (data_file (snd (host B rounds E req W)) = data_file W \<or>
       data_file (snd (host B rounds E req W)) = None)) \<and>
   (query_error P = Some e' \<longrightarrow>
      status (fst (host_pg B rounds cfg E req P)) = 500 \<and>
      fst ` set (json (fst (host_pg B rounds cfg E req P))) \<subseteq> {''error'', ''detail'', ''stack''} \<and>
      pg_table (snd (host_pg B rounds cfg E req P)) = pg_table P) \<and>
   (query_error P = Some e' \<and> providedKey E (req_keyphrase req) = Inr pk \<and>
    bcrypt_hash B (pg_rng P) (new_passcode E) rounds = (Inr h, w') \<and>
    upload_file cfg E req (P\<lparr>pg_rng := w'\<rparr>) = Inr fm \<longrightarrow>
      fst (host_pg B rounds cfg E req P) =
        \<lparr>status = 500, json = error_body cfg ''failed to write item to DB'' e'\<rparr>)"
proof (intro conjI impI)
  assume w: "write_error W = Some e"
  then show f: "fst (host B rounds E req W) = failed_to_host"
    by (simp add: host_cases split: sum.splits prod.splits)
  from f show "status (fst (host B rounds E req W)) = 500"
    by (simp add: failed_to_host_def)
  from f show "fst ` set (json (fst (host B rounds E req W))) = {''error''}"
    by (simp add: failed_to_host_def)
  from w show "data_file (snd (host B rounds E req W)) = data_file W \<or>
       data_file (snd (host B rounds E req W)) = None"
    by (simp add: host_cases split: sum.splits prod.splits)
next
  assume q: "query_error P = Some e'"
  let ?r = "host_pg B rounds cfg E req P"
  from q show "status (fst ?r) = 500"
    by (rule host_pg_failure)
  from q show "fst ` set (json (fst ?r)) \<subseteq> {''error'', ''detail'', ''stack''}"
    by (rule host_pg_failure)
  from q show "pg_table (snd ?r) = pg_table P"
    by (rule host_pg_failure)
next
  assume "query_error P = Some e' \<and> providedKey E (req_keyphrase req) = Inr pk \<and>
    bcrypt_hash B (pg_rng P) (new_passcode E) rounds = (Inr h, w') \<and>
    upload_file cfg E req (P\<lparr>pg_rng := w'\<rparr>) = Inr fm"
  then show "fst (host_pg B rounds cfg E req P) =
        \<lparr>status = 500, json = error_body cfg ''failed to write item to DB'' e'\<rparr>"
    by (cases fm) (simp add: host_pg_def insertItemToDb_def Let_def)
qed

theorem host_insert_failure_witness:
  "write_error ((sample_world [True] [legacy_item])\<lparr>write_error := Some disk_full\<rparr>) = Some disk_full \<and>
   host stub_bcrypt 10 sample_draws (sample_request Undefined)
     ((sample_world [True] [legacy_item])\<lparr>write_error := Some disk_full\<rparr>) =
     (\<lparr>status = 500, json = [(''error'', Str ''failed to host item'')]\<rparr>,
      (sample_world [] [legacy_item])\<lparr>write_error := Some disk_full, data_file := None\<rparr>) \<and>
   query_error (sample_pg (Some db_down)) = Some db_down \<and>
   fst (host_pg stub_bcrypt 10 sample_config sample_draws (sample_request Undefined)
          (sample_pg (Some db_down))) =
     \<lparr>status = 500,
      json = [(''error'', Str ''failed to write item to DB''),
              (''detail'', Str ''connect ECONNREFUSED''),
              (''stack'', Str ''Error: connect ECONNREFUSED'')]\<rparr>"
proof -
  let ?W = "(sample_world [True] [legacy_item])\<lparr>write_error := Some disk_full\<rparr>"
  let ?P = "sample_pg (Some db_down)"
  let ?req = "sample_request Undefined"
  have a: "write_error ?W = Some disk_full" by simp
  have b: "query_error ?P = Some db_down" by (simp add: sample_pg_def)
  have c: "providedKey sample_draws (req_keyphrase ?req) = Inr Undefined"
    by (simp add: providedKey_def sample_request_fields)
  have d: "bcrypt_hash stub_bcrypt (pg_rng ?P) (new_passcode sample_draws) 10 =
             (Inr (''$2b$'' @ new_passcode sample_draws), [])"
    by (simp add: stub_hash sample_pg_def)
  have e: "upload_file sample_config sample_draws ?req (?P\<lparr>pg_rng := []\<rparr>) = Inr (Undefined, Undefined)"
    by (simp add: upload_file_def sample_request_fields)
  have s: "snd (host stub_bcrypt 10 sample_draws ?req ?W) =
             (sample_world [] [legacy_item])\<lparr>write_error := Some disk_full, data_file := None\<rparr>"
    by (simp add: host_cases providedKey_def sample_request_fields stub_hash sample_world_def)
  note th = host_insert_failure [where W = ?W and e = disk_full and B = stub_bcrypt and rounds = 10
      and E = sample_draws and req = ?req and P = ?P and e' = db_down and cfg = sample_config
      and pk = Undefined and h = "''$2b$'' @ new_passcode sample_draws" and w' = "[]"
      and fm = "(Undefined, Undefined)"]
  from th a have "fst (host stub_bcrypt 10 sample_draws ?req ?W) =
     \<lparr>status = 500, json = [(''error'', Str ''failed to host item'')]\<rparr>"
    by (simp add: failed_to_host_def)
  with s have "host stub_bcrypt 10 sample_draws ?req ?W =
     (\<lparr>status = 500, json = [(''error'', Str ''failed to host item'')]\<rparr>,
      (sample_world [] [legacy_item])\<lparr>write_error := Some disk_full, data_file := None\<rparr>)"
    by (metis prod.collapse)
  moreover from th b c d e have "fst (host_pg stub_bcrypt 10 sample_config sample_draws ?req ?P) =
     \<lparr>status = 500,
      json = [(''error'', Str ''failed to write item to DB''),
              (''detail'', Str ''connect ECONNREFUSED''),
              (''stack'', Str ''Error: connect ECONNREFUSED'')]\<rparr>"
    by (simp add: error_body_def sample_config_def db_down_def)
  ultimately show ?thesis using a b by blast
qed

text \<open>
  Claim C9 as stated fails. A supplied keyphrase with a blank at each end is not stored as
  supplied: the item and the response carry the trimmed text.
\<close>

theorem host_keyphrase_counterexample:
  "map keyphrase
     (readDB (snd (host stub_bcrypt 10 sample_draws (sample_request (Str '' apple-river-sun ''))
                     (sample_world [True] [])))) = [Str ''apple-river-sun''] \<and>
   map_of (json (fst (host stub_bcrypt 10 sample_draws (sample_request (Str '' apple-river-sun ''))
                        (sample_world [True] [])))) ''keyphrase'' = Some (Str ''apple-river-sun'') \<and>
   ''apple-river-sun'' \<noteq> '' apple-river-sun ''"
  by (simp add: host_cases providedKey_def sample_request_fields trim_sample stub_hash rng_sample
        write_error_sample readDB_sample choose_keyphrase_def keyphrase_new_item
        host_success_def readDB_written)

text \<open>
  Claim C9, amended. Let the hashing and the write of the file succeed. If the request
  carries a keyphrase string that is non-empty after trimming, the item appended to the store
  has the trimmed keyphrase, whatever the store already holds: nothing is generated and no
  existing keyphrase is looked at. If the request carries no keyphrase, or one that is empty
  after trimming, the item has the generated keyphrase. For values of \<^verbatim>\<open>Math.random()\<close> in
  \<open>[0, 1)\<close> the generated keyphrase is three words of the list joined by hyphens; the list
  has 15 words, none of which contains a hyphen.
\<close>

theorem host_keyphrase:
  assumes "bcrypt_hash B (rng W) (new_passcode E) rounds = (Inr h, w')"
    and "write_error W = None"
  shows "(\<forall>s. req_keyphrase req = Str s \<and> trim s \<noteq> [] \<longrightarrow>
            (\<exists>it. host B rounds E req W =
                    (host_success req it (new_passcode E),
                     W\<lparr>rng := w', data_file := Some (readDB W @ [it])\<rparr>) \<and>
                  keyphrase it = Str (trim s))) \<and>
         (\<not> truthy (req_keyphrase req) \<or> (\<exists>s. req_keyphrase req = Str s \<and> trim s = []) \<longrightarrow>
            (\<exists>it. host B rounds E req W =
                    (host_success req it (new_passcode E),
                     W\<lparr>rng := w', data_file := Some (readDB W @ [it])\<rparr>) \<and>
                  keyphrase it = Str (generateKeyphrase (random1 E) (random2 E) (random3 E)))) \<and>
         (0 \<le> random1 E \<and> random1 E < 1 \<and> 0 \<le> random2 E \<and> random2 E < 1 \<and>
          0 \<le> random3 E \<and> random3 E < 1 \<longrightarrow>
            (\<exists>a \<in> set words. \<exists>b \<in> set words. \<exists>c \<in> set words.
               generateKeyphrase (random1 E) (random2 E) (random3 E) = a @ ''-'' @ b @ ''-'' @ c)) \<and>
         length words = 15 \<and> (\<forall>w \<in> set words. CHR ''-'' \<notin> set w)"
proof (intro conjI allI impI)
  fix s assume a: "req_keyphrase req = Str s \<and> trim s \<noteq> []"
  then have "providedKey E (req_keyphrase req) = Inr (Str (trim s))"
    by (simp add: providedKey_trimmed)
  from host_stores [OF this assms] a
  show "\<exists>it. host B rounds E req W =
                    (host_success req it (new_passcode E),
                     W\<lparr>rng := w', data_file := Some (readDB W @ [it])\<rparr>) \<and>
                  keyphrase it = Str (trim s)"
    by (auto simp: choose_keyphrase_def)
next
  assume "\<not> truthy (req_keyphrase req) \<or> (\<exists>s. req_keyphrase req = Str s \<and> trim s = [])"
  from providedKey_blank [OF this] obtain pk
    where pk: "providedKey E (req_keyphrase req) = Inr pk" "\<not> truthy pk" by blast
  from host_stores [OF pk(1) assms] pk(2)
  show "\<exists>it. host B rounds E req W =
                    (host_success req it (new_passcode E),
                     W\<lparr>rng := w', data_file := Some (readDB W @ [it])\<rparr>) \<and>
                  keyphrase it = Str (generateKeyphrase (random1 E) (random2 E) (random3 E))"
    by (auto simp: choose_keyphrase_def)
next
  assume "0 \<le> random1 E \<and> random1 E < 1 \<and> 0 \<le> random2 E \<and> random2 E < 1 \<and>
          0 \<le> random3 E \<and> random3 E < 1"
  then have "pick (random1 E) \<in> set words" "pick (random2 E) \<in> set words"
    "pick (random3 E) \<in> set words"
    by (simp_all add: pick_in_words)
  then show "\<exists>a \<in> set words. \<exists>b \<in> set words. \<exists>c \<in> set words.
               generateKeyphrase (random1 E) (random2 E) (random3 E) = a @ ''-'' @ b @ ''-'' @ c"
    unfolding generateKeyphrase_def by blast
next
  show "length words = 15" by (simp add: words_def)
next
  show "\<forall>w \<in> set words. CHR ''-'' \<notin> set w" by (simp add: words_def)
qed

theorem host_keyphrase_witness:
  "(\<exists>it. host stub_bcrypt 10 sample_draws (sample_request (Str '' apple-river-sun ''))
            (sample_world [True] [legacy_item]) =
          (host_success (sample_request (Str '' apple-river-sun '')) it ''0042'',
           sample_world [] [legacy_item, it]) \<and>
          keyphrase it = Str ''apple-river-sun'' \<and> keyphrase legacy_item = Str ''apple-river-sun'') \<and>
   (\<exists>it. host stub_bcrypt 10 sample_draws (sample_request Undefined) (sample_world [True] [legacy_item]) =
          (host_success (sample_request Undefined) it ''0042'',
           sample_world [] [legacy_item, it]) \<and>
          keyphrase it = Str ''apple-stone-wind'') \<and>
   ''apple'' \<in> set words \<and> ''stone'' \<in> set words \<and> ''wind'' \<in> set words"
proof -
  let ?W = "sample_world [True] [legacy_item]"
  have h: "bcrypt_hash stub_bcrypt (rng ?W) (new_passcode sample_draws) 10 = (Inr ''$2b$0042'', [])"
    by (simp add: stub_hash rng_sample new_passcode_sample)
  have w: "write_error ?W = None" by (simp add: write_error_sample)
  have u: "?W\<lparr>rng := [], data_file := Some (readDB ?W @ [it])\<rparr> = sample_world [] [legacy_item, it]"
    for it
    by (simp add: sample_world_def readDB_def)
  have g: "generateKeyphrase (random1 sample_draws) (random2 sample_draws) (random3 sample_draws) =
             ''apple-stone-wind''"
    by (simp add: generateKeyphrase_def pick_def words_def sample_draws_def)
  note th = host_keyphrase [OF h w]
  from th [of "sample_request (Str '' apple-river-sun '')"]
  have 1: "\<exists>it. host stub_bcrypt 10 sample_draws (sample_request (Str '' apple-river-sun '')) ?W =
          (host_success (sample_request (Str '' apple-river-sun '')) it ''0042'',
           sample_world [] [legacy_item, it]) \<and>
          keyphrase it = Str ''apple-river-sun''"
    by (simp add: sample_request_fields trim_sample new_passcode_sample u)
  from th [of "sample_request Undefined"]
  have 2: "\<exists>it. host stub_bcrypt 10 sample_draws (sample_request Undefined) ?W =
          (host_success (sample_request Undefined) it ''0042'',
           sample_world [] [legacy_item, it]) \<and>
          keyphrase it = Str ''apple-stone-wind''"
    by (simp add: sample_request_fields new_passcode_sample u g)
  have 3: "keyphrase legacy_item = Str ''apple-river-sun''" by (simp add: sample_defs)
  have 4: "''apple'' \<in> set words \<and> ''stone'' \<in> set words \<and> ''wind'' \<in> set words"
    by (simp add: words_def)
  from 1 2 3 4 show ?thesis by blast
qed

end
